theory Spec2Isabelle
  imports Complex_Main "HOL-Library.Char_ord" "HOL-Library.List_Lexorder"
begin

section \<open>Python values\<close>

text \<open>
  The values that \<open>response.json()\<close> hands to the crawler, and that the crawler stores
  unchecked in its dataclasses (a Python dataclass does not enforce its annotations).
  \<open>JNull\<close> is Python's \<open>None\<close>. A dict is an association list in insertion order; its
  keys are distinct, as the keys of a Python dict are. Strings are lists of 8-bit
  characters, compared by code point as Python compares \<open>str\<close>. Numbers are integers:
  floating-point values are outside this embedding.
\<close>

datatype json =
    JNull
  | JBool bool
  | JNum int
  | JStr string
  | JList "json list"
  | JObj "(string \<times> json) list"

datatype py_error =
    AttributeError string string
  | TypeError string
  | KeyError string
  | JSONDecodeError string
  | HTTPStatusError nat
  | RequestError string
  | RuntimeError string py_error
  | ValueError string py_error

text \<open>
  \<open>AttributeError t a\<close>: an object of type \<open>t\<close> has no attribute \<open>a\<close>.
  \<open>TypeError m\<close>, \<open>KeyError m\<close>, \<open>JSONDecodeError m\<close>, \<open>RequestError m\<close>: \<open>m\<close> is \<open>str(e)\<close>.
  \<open>HTTPStatusError n\<close>: \<open>n\<close> is \<open>e.response.status_code\<close>.
  \<open>RuntimeError m c\<close> and \<open>ValueError m c\<close>: raised by the crawler with message \<open>m\<close>
  \<open>from\<close> the cause \<open>c\<close>.
\<close>

definition py_bind :: "'e + 'a \<Rightarrow> ('a \<Rightarrow> 'e + 'b) \<Rightarrow> 'e + 'b" where
  "py_bind m f = (case m of Inl e \<Rightarrow> Inl e | Inr v \<Rightarrow> f v)"

fun truthy :: "json \<Rightarrow> bool" where
  "truthy JNull = False"
| "truthy (JBool b) = b"
| "truthy (JNum n) = (n \<noteq> 0)"
| "truthy (JStr s) = (s \<noteq> [])"
| "truthy (JList xs) = (xs \<noteq> [])"
| "truthy (JObj d) = (d \<noteq> [])"

definition py_or :: "json \<Rightarrow> json \<Rightarrow> json" where
  "py_or a b = (if truthy a then a else b)"

fun type_name :: "json \<Rightarrow> string" where
  "type_name JNull = ''NoneType''"
| "type_name (JBool b) = ''bool''"
| "type_name (JNum n) = ''int''"
| "type_name (JStr s) = ''str''"
| "type_name (JList xs) = ''list''"
| "type_name (JObj d) = ''dict''"

definition dict_get :: "(string \<times> json) list \<Rightarrow> string \<Rightarrow> json \<Rightarrow> json" where
  "dict_get d k dflt = (case map_of d k of Some v \<Rightarrow> v | None \<Rightarrow> dflt)"

text \<open>\<open>obj.get(k, dflt)\<close>: only a dict has the method.\<close>

fun py_get :: "json \<Rightarrow> string \<Rightarrow> json \<Rightarrow> py_error + json" where
  "py_get (JObj d) k dflt = Inr (dict_get d k dflt)"
| "py_get v k dflt = Inl (AttributeError (type_name v) ''get'')"

text \<open>\<open>obj.keys()\<close>.\<close>

fun py_keys :: "json \<Rightarrow> py_error + string list" where
  "py_keys (JObj d) = Inr (map fst d)"
| "py_keys v = Inl (AttributeError (type_name v) ''keys'')"

text \<open>Iteration, as \<open>list(obj)\<close> and \<open>for x in obj\<close> do it.\<close>

fun py_list :: "json \<Rightarrow> py_error + json list" where
  "py_list (JList xs) = Inr xs"
| "py_list (JObj d) = Inr (map (\<lambda>kv. JStr (fst kv)) d)"
| "py_list (JStr s) = Inr (map (\<lambda>c. JStr [c]) s)"
| "py_list v = Inl (TypeError ([CHR 0x27] @ type_name v @ [CHR 0x27] @ '' object is not iterable''))"

text \<open>\<open>sorted(keys, reverse=True)\<close> on strings.\<close>

definition sorted_reverse :: "string list \<Rightarrow> string list" where
  "sorted_reverse xs = rev (sort xs)"

text \<open>
  A replacement field of an f-string: a \<open>str\<close> is inserted as it is; for every other
  value Python's \<open>format\<close> builtin decides, which the model takes as the parameter
  \<open>str_of\<close>.
\<close>

definition format_value :: "(json \<Rightarrow> string) \<Rightarrow> json \<Rightarrow> string" where
  "format_value str_of v = (case v of JStr s \<Rightarrow> s | _ \<Rightarrow> str_of v)"

section \<open>PackageInfo\<close>

record PackageInfo =
  name :: json
  version :: json
  summary :: json
  description :: json
  author :: json
  license :: json
  homepage_url :: json
  project_url :: json
  requires_python :: json
  dependencies :: "json list"

definition from_json :: "(json \<Rightarrow> string) \<Rightarrow> json \<Rightarrow> py_error + PackageInfo" where
  "from_json str_of data =
     py_bind (py_get data ''info'' (JObj [])) (\<lambda>info.
     py_bind (py_get data ''releases'' (JObj [])) (\<lambda>releases.
     py_bind
       (if truthy releases then
          py_bind (py_keys releases) (\<lambda>ks.
            (case sorted_reverse ks of
               v # _ \<Rightarrow> Inr (JStr v)
             | [] \<Rightarrow> py_get info ''version'' (JStr '''')))
        else py_get info ''version'' (JStr '''')) (\<lambda>version.
     py_bind (py_get info ''requires_dist'' (JList [])) (\<lambda>requires_dist.
     py_bind (if truthy requires_dist then py_list requires_dist else Inr []) (\<lambda>dependencies.
     py_bind (py_get info ''project_urls'' (JObj [])) (\<lambda>pu.
     py_bind (py_get (py_or pu (JObj [])) ''Homepage'' JNull) (\<lambda>hp.
     py_bind (if truthy hp then Inr hp else py_get info ''home_page'' JNull) (\<lambda>homepage_url.
     py_bind (py_get info ''name'' (JStr '''')) (\<lambda>name.
     py_bind (py_get info ''summary'' JNull) (\<lambda>summary.
     py_bind (py_get info ''description'' JNull) (\<lambda>description.
     py_bind (py_get info ''author'' JNull) (\<lambda>author.
     py_bind (py_get info ''license'' JNull) (\<lambda>license.
     py_bind (py_get info ''project_url'' JNull) (\<lambda>pju.
     py_bind (if truthy pju then Inr pju
              else py_bind (py_get info ''name'' (JStr '''')) (\<lambda>n.
                Inr (JStr (''https://pypi.org/project/'' @ format_value str_of n @ ''/''))))
       (\<lambda>project_url.
     py_bind (py_get info ''requires_python'' JNull) (\<lambda>requires_python.
       Inr \<lparr> name = name, version = version, summary = summary,
             description = description, author = author, license = license,
             homepage_url = homepage_url, project_url = project_url,
             requires_python = requires_python,
             dependencies = dependencies \<rparr>))))))))))))))))"

section \<open>Transport\<close>

text \<open>
  The crawler talks to the registry through \<open>httpx\<close>. A request either fails at the
  network level (\<open>httpx.RequestError\<close>, with its message) or yields a response.
  \<open>body_json\<close> is what \<open>response.json()\<close> does: the decoded value, or the message of the
  \<open>JSONDecodeError\<close> it raises. \<open>body_text\<close> is \<open>response.text\<close>.
\<close>

record request =
  req_url :: string
  req_params :: "(string \<times> string) list"
  req_headers :: "(string \<times> string) list"

record response =
  status_code :: nat
  body_json :: "string + json"
  body_text :: string

datatype outcome = Response response | RequestFailed string

text \<open>\<open>response.raise_for_status()\<close> of httpx: every status outside 2xx raises.\<close>

definition raise_for_status :: "response \<Rightarrow> py_error + response" where
  "raise_for_status r =
     (if 200 \<le> status_code r \<and> status_code r < 300 then Inr r
      else Inl (HTTPStatusError (status_code r)))"

definition response_json :: "response \<Rightarrow> py_error + json" where
  "response_json r = (case body_json r of Inl m \<Rightarrow> Inl (JSONDecodeError m) | Inr j \<Rightarrow> Inr j)"

section \<open>PyPICrawler\<close>

text \<open>
  \<open>http_get\<close> stands for \<open>self._get_client().get\<close>: the registry as this crawler sees
  it. No operation below writes to the crawler, so it is passed and never returned.
\<close>

record PyPICrawler =
  base_url :: string
  timeout :: rat
  follow_redirects :: bool
  http_get :: "request \<Rightarrow> outcome"

definition BASE_URL :: string where
  "BASE_URL = ''https://pypi.org''"

definition JSON_API_URL :: "string \<Rightarrow> string" where
  "JSON_API_URL package_name = BASE_URL @ ''/pypi/'' @ package_name @ ''/json''"

definition JSON_API_VERSION_URL :: "string \<Rightarrow> string \<Rightarrow> string" where
  "JSON_API_VERSION_URL package_name ver =
     BASE_URL @ ''/pypi/'' @ package_name @ ''/'' @ ver @ ''/json''"


definition SEARCH_API_URL :: string where
  "SEARCH_API_URL = BASE_URL @ ''/search''"

definition init :: "string option \<Rightarrow> rat \<Rightarrow> bool \<Rightarrow> (request \<Rightarrow> outcome) \<Rightarrow> PyPICrawler" where
  "init base timeout_s follow registry =
     \<lparr> base_url = (case base of None \<Rightarrow> BASE_URL | Some u \<Rightarrow> if u = [] then BASE_URL else u),
       timeout = timeout_s, follow_redirects = follow, http_get = registry \<rparr>"

definition json_api_url :: "string \<Rightarrow> string option \<Rightarrow> string" where
  "json_api_url package_name ver =
     (case ver of
        None \<Rightarrow> JSON_API_URL package_name
      | Some v \<Rightarrow> if v = [] then JSON_API_URL package_name
                 else JSON_API_VERSION_URL package_name v)"

definition json_api_request :: "string \<Rightarrow> string option \<Rightarrow> request" where
  "json_api_request package_name ver =
     \<lparr> req_url = json_api_url package_name ver, req_params = [],
       req_headers = [(''Accept'', ''application/json'')] \<rparr>"

definition get_package_json :: "PyPICrawler \<Rightarrow> string \<Rightarrow> string option \<Rightarrow> py_error + json" where
  "get_package_json self package_name ver =
     (case http_get self (json_api_request package_name ver) of
        RequestFailed m \<Rightarrow>
          Inl (RuntimeError (''Failed to fetch package info for '' @ package_name @ '': '' @ m)
                 (RequestError m))
      | Response r \<Rightarrow>
          (case raise_for_status r of
             Inl e \<Rightarrow> if status_code r = 404 then Inr JNull else Inl e
           | Inr r' \<Rightarrow> response_json r'))"

text \<open>
  \<open>except (KeyError, TypeError, ValueError) as e\<close>: \<open>str(e)\<close> when the handler catches
  \<open>e\<close>. \<open>JSONDecodeError\<close> is a subclass of \<open>ValueError\<close>.
\<close>

fun caught_parse_error :: "py_error \<Rightarrow> string option" where
  "caught_parse_error (KeyError m) = Some m"
| "caught_parse_error (TypeError m) = Some m"
| "caught_parse_error (ValueError m c) = Some m"
| "caught_parse_error (JSONDecodeError m) = Some m"
| "caught_parse_error e = None"

definition get_package_info ::
  "(json \<Rightarrow> string) \<Rightarrow> PyPICrawler \<Rightarrow> string \<Rightarrow> string option \<Rightarrow> py_error + PackageInfo option" where
  "get_package_info str_of self package_name ver =
     py_bind (get_package_json self package_name ver) (\<lambda>json_data.
       if json_data = JNull then Inr None
       else (case from_json str_of json_data of
               Inr p \<Rightarrow> Inr (Some p)
             | Inl e \<Rightarrow>
                 (case caught_parse_error e of
                    Some m \<Rightarrow>
                      Inl (ValueError (''Failed to parse package info for '' @ package_name @ '': '' @ m) e)
                  | None \<Rightarrow> Inl e)))"

definition package_exists :: "PyPICrawler \<Rightarrow> string \<Rightarrow> py_error + bool" where
  "package_exists self package_name =
     py_bind (get_package_json self package_name None) (\<lambda>json_data. Inr (json_data \<noteq> JNull))"

definition get_package_metadata :: "PyPICrawler \<Rightarrow> string \<Rightarrow> string option \<Rightarrow> py_error + json" where
  "get_package_metadata self package_name ver =
     py_bind (get_package_json self package_name ver) (\<lambda>json_data.
       if json_data = JNull then Inr JNull else py_get json_data ''info'' (JObj []))"

definition get_package_dependencies ::
  "PyPICrawler \<Rightarrow> string \<Rightarrow> string option \<Rightarrow> py_error + json list" where
  "get_package_dependencies self package_name ver =
     py_bind (get_package_metadata self package_name ver) (\<lambda>metadata.
       if metadata = JNull then Inr []
       else py_bind (py_get metadata ''requires_dist'' JNull) (\<lambda>requires_dist.
         if requires_dist = JNull then Inr []
         else (case requires_dist of JList xs \<Rightarrow> Inr xs | _ \<Rightarrow> Inr [])))"

definition get_package_versions :: "PyPICrawler \<Rightarrow> string \<Rightarrow> py_error + string list" where
  "get_package_versions self package_name =
     py_bind (get_package_json self package_name None) (\<lambda>json_data.
       if json_data = JNull then Inr []
       else py_bind (py_get json_data ''releases'' (JObj [])) (\<lambda>releases.
            py_bind (py_keys releases) (\<lambda>ks. Inr (sorted_reverse ks))))"

section \<open>Strings\<close>

text \<open>
  The whitespace of \<open>str.strip()\<close> and \<open>str.split()\<close> among the code points below 256:
  U+0009 to U+000D, U+001C to U+0020, U+0085 and U+00A0.
\<close>

definition isspace :: "char \<Rightarrow> bool" where
  "isspace c = (let n = (of_char c :: nat) in
     (9 \<le> n \<and> n \<le> 13) \<or> (28 \<le> n \<and> n \<le> 32) \<or> n = 133 \<or> n = 160)"

text \<open>\<open>s.strip()\<close>\<close>

definition strip :: "string \<Rightarrow> string" where
  "strip s = rev (dropWhile isspace (rev (dropWhile isspace s)))"

text \<open>\<open>s.split()\<close>: the maximal runs of characters that are not whitespace.\<close>

fun split_ws_aux :: "string \<Rightarrow> string \<Rightarrow> string list" where
  "split_ws_aux cur [] = (if cur = [] then [] else [rev cur])"
| "split_ws_aux cur (c # cs) =
     (if isspace c then (if cur = [] then split_ws_aux [] cs else rev cur # split_ws_aux [] cs)
      else split_ws_aux (c # cur) cs)"

definition split_ws :: "string \<Rightarrow> string list" where
  "split_ws s = split_ws_aux [] s"



text \<open>\<open>xs[:n]\<close>; a negative \<open>n\<close> counts from the end.\<close>

definition py_slice_to :: "'a list \<Rightarrow> int \<Rightarrow> 'a list" where
  "py_slice_to xs n = (if 0 \<le> n then take (nat n) xs else take (length xs - nat (- n)) xs)"

section \<open>Regular expressions\<close>

text \<open>
  The constructs of \<open>re\<close> that the crawler's patterns use. An atom matches one character:
  a literal, \<open>.\<close> (any character but the newline), a class \<open>[...]\<close> or a negated class
  \<open>[^...]\<close>; a class holds single characters, ranges and \<open>\d\<close>. \<open>Star\<close> and \<open>Plus\<close> are the
  greedy \<open>*\<close> and \<open>+\<close>, \<open>LazyStar\<close> and \<open>LazyPlus\<close> are \<open>*?\<close> and \<open>+?\<close>, \<open>Opt\<close> is the
  greedy \<open>?\<close>, \<open>Alt\<close> is \<open>|\<close> and \<open>Group n\<close> is the \<open>n\<close>-th capturing group.
\<close>

datatype cls_item = Single char | Rng char char | Digit

datatype atom = Lit char | Dot | Cls "cls_item list" | NotCls "cls_item list"

datatype regex =
    Eps
  | One atom
  | Star atom
  | Plus atom
  | LazyStar atom
  | LazyPlus atom
  | Cat regex regex
  | Alt regex regex
  | Opt regex
  | Group nat regex

fun item_match :: "cls_item \<Rightarrow> char \<Rightarrow> bool" where
  "item_match (Single x) c = (c = x)"
| "item_match (Rng lo hi) c = (lo \<le> c \<and> c \<le> hi)"
| "item_match Digit c = (CHR ''0'' \<le> c \<and> c \<le> CHR ''9'')"

definition lower_ascii :: "char \<Rightarrow> char" where
  "lower_ascii c = (if CHR ''A'' \<le> c \<and> c \<le> CHR ''Z'' then char_of (of_char c + (32::nat)) else c)"

definition upper_ascii :: "char \<Rightarrow> char" where
  "upper_ascii c = (if CHR ''a'' \<le> c \<and> c \<le> CHR ''z'' then char_of (of_char c - (32::nat)) else c)"

definition cls_match :: "bool \<Rightarrow> cls_item list \<Rightarrow> char \<Rightarrow> bool" where
  "cls_match ic items c =
     list_ex (\<lambda>i. item_match i c \<or> (ic \<and> (item_match i (lower_ascii c) \<or> item_match i (upper_ascii c)))) items"

fun atom_match :: "bool \<Rightarrow> atom \<Rightarrow> char \<Rightarrow> bool" where
  "atom_match ic (Lit x) c = (if ic then lower_ascii c = lower_ascii x else c = x)"
| "atom_match ic Dot c = (c \<noteq> CHR 0x0A)"
| "atom_match ic (Cls items) c = cls_match ic items c"
| "atom_match ic (NotCls items) c = (\<not> cls_match ic items c)"

text \<open>
  What is left of \<open>s\<close> after zero, one, two, ... characters that match the atom, as far
  as they match.
\<close>

fun lazy_tails :: "bool \<Rightarrow> atom \<Rightarrow> string \<Rightarrow> string list" where
  "lazy_tails ic a [] = [[]]"
| "lazy_tails ic a (c # cs) = (c # cs) # (if atom_match ic a c then lazy_tails ic a cs else [])"

type_synonym captures = "(nat \<times> string) list"

text \<open>
  Python's backtracking matcher: \<open>ms ic p (s, g)\<close> lists, in the order the matcher tries
  them, the ways \<open>p\<close> matches a prefix of \<open>s\<close>, each as the text left over and the groups
  captured so far; the first element is the match Python reports. \<open>ic\<close> is
  \<open>re.IGNORECASE\<close>: a letter of the pattern then matches in both cases.
\<close>

fun ms :: "bool \<Rightarrow> regex \<Rightarrow> string \<times> captures \<Rightarrow> (string \<times> captures) list" where
  "ms ic Eps st = [st]"
| "ms ic (One a) (s, g) = (case s of [] \<Rightarrow> [] | c # cs \<Rightarrow> if atom_match ic a c then [(cs, g)] else [])"
| "ms ic (Star a) (s, g) = map (\<lambda>t. (t, g)) (rev (lazy_tails ic a s))"
| "ms ic (Plus a) (s, g) = map (\<lambda>t. (t, g)) (rev (tl (lazy_tails ic a s)))"
| "ms ic (LazyStar a) (s, g) = map (\<lambda>t. (t, g)) (lazy_tails ic a s)"
| "ms ic (LazyPlus a) (s, g) = map (\<lambda>t. (t, g)) (tl (lazy_tails ic a s))"
| "ms ic (Cat p q) st = concat (map (ms ic q) (ms ic p st))"
| "ms ic (Alt p q) st = ms ic p st @ ms ic q st"
| "ms ic (Opt p) st = ms ic p st @ [st]"
| "ms ic (Group n p) (s, g) =
     map (\<lambda>(t, g'). (t, (n, take (length s - length t) s) # g')) (ms ic p (s, g))"

text \<open>A literal string (also what \<open>re.escape\<close> makes of a string), and a sequence.\<close>

fun lits :: "string \<Rightarrow> regex" where
  "lits [] = Eps"
| "lits [c] = One (Lit c)"
| "lits (c # cs) = Cat (One (Lit c)) (lits cs)"

fun seq :: "regex list \<Rightarrow> regex" where
  "seq [] = Eps"
| "seq [p] = p"
| "seq (p # ps) = Cat p (seq ps)"

record rmatch =
  m_start :: nat
  m_end :: nat
  m_text :: string
  m_groups :: captures

text \<open>
  \<open>m.group(n)\<close>. Every group of the patterns below takes part in every match, so the
  \<open>None\<close> of a group that took no part does not arise.
\<close>

definition match_group :: "rmatch \<Rightarrow> nat \<Rightarrow> string" where
  "match_group m n = (if n = 0 then m_text m else (case map_of (m_groups m) n of Some s \<Rightarrow> s | None \<Rightarrow> []))"

definition mk_match :: "nat \<Rightarrow> string \<Rightarrow> string \<times> captures \<Rightarrow> rmatch" where
  "mk_match pos s tg =
     \<lparr> m_start = pos, m_end = pos + (length s - length (fst tg)),
       m_text = take (length s - length (fst tg)) s, m_groups = snd tg \<rparr>"

text \<open>\<open>re.search\<close>: the first match at the leftmost position that has one.\<close>

fun search_from :: "bool \<Rightarrow> regex \<Rightarrow> nat \<Rightarrow> string \<Rightarrow> rmatch option" where
  "search_from ic p pos s =
     (case ms ic p (s, []) of
        tg # _ \<Rightarrow> Some (mk_match pos s tg)
      | [] \<Rightarrow> (case s of [] \<Rightarrow> None | _ # cs \<Rightarrow> search_from ic p (Suc pos) cs))"

definition re_search :: "bool \<Rightarrow> regex \<Rightarrow> string \<Rightarrow> rmatch option" where
  "re_search ic p s = search_from ic p 0 s"

text \<open>\<open>re.finditer\<close>: the matches from left to right, each sought from the end of the last.\<close>

function finditer_from :: "bool \<Rightarrow> regex \<Rightarrow> nat \<Rightarrow> string \<Rightarrow> rmatch list" where
  "finditer_from ic p pos s =
     (case ms ic p (s, []) of
        tg # _ \<Rightarrow>
          mk_match pos s tg #
            (let n = length s - length (fst tg) in
             if 0 < n then finditer_from ic p (pos + n) (drop n s)
             else (case s of [] \<Rightarrow> [] | _ # cs \<Rightarrow> finditer_from ic p (Suc pos) cs))
      | [] \<Rightarrow> (case s of [] \<Rightarrow> [] | _ # cs \<Rightarrow> finditer_from ic p (Suc pos) cs))"
  by pat_completeness auto
termination
  by (relation "measure (\<lambda>(ic, p, pos, s). length s)") auto

definition re_finditer :: "bool \<Rightarrow> regex \<Rightarrow> string \<Rightarrow> rmatch list" where
  "re_finditer ic p s = finditer_from ic p 0 s"

text \<open>
  No pattern below matches the empty string; after an empty match \<open>finditer_from\<close> moves
  on by one character.
\<close>

section \<open>The crawler's patterns\<close>

text \<open>\<open>(\d+\.\d+(?:\.\d+)?(?:[a-zA-Z0-9]+)?)\<close>\<close>

definition version_regex :: regex where
  "version_regex =
     Group 1 (seq [Plus (Cls [Digit]), One (Lit CHR ''.''), Plus (Cls [Digit]),
                   Opt (Cat (One (Lit CHR ''.'')) (Plus (Cls [Digit]))),
                   Opt (Plus (Cls [Rng CHR ''a'' CHR ''z'', Rng CHR ''A'' CHR ''Z'',
                                   Rng CHR ''0'' CHR ''9'']))])"

text \<open>\<open>/project/([^/]+)/\<close>\<close>

definition project_regex :: regex where
  "project_regex =
     seq [lits ''/project/'', Group 1 (Plus (NotCls [Single CHR ''/''])), One (Lit CHR ''/'')]"

text \<open>\<open>href="/project/([^/"]+)/[^"]*"[^>]*>([^<]+)</a>\<close>\<close>

definition fallback_regex :: regex where
  \<open>fallback_regex =
     seq [lits ''href="/project/'',
          Group 1 (Plus (NotCls [Single CHR ''/'', Single (CHR 0x22)])), One (Lit CHR ''/''),
          Star (NotCls [Single (CHR 0x22)]), One (Lit (CHR 0x22)),
          Star (NotCls [Single CHR ''>'']), One (Lit CHR ''>''),
          Group 2 (Plus (NotCls [Single CHR ''<''])), lits ''</a>'']\<close>

text \<open>\<open>{re.escape(package_name)}.*?(\d+\.\d+(?:\.\d+)?(?:[a-zA-Z0-9]+)?)\<close>\<close>

definition nearby_version_regex :: "string \<Rightarrow> regex" where
  "nearby_version_regex package_name = seq [lits package_name, LazyStar Dot, version_regex]"




section \<open>PyPISearchParser\<close>

record SearchResult =
  sr_name :: string
  sr_version :: string
  sr_summary :: "string option"
  sr_score :: "rat option"

text \<open>
  The events \<open>HTMLParser.feed\<close> dispatches to the three handlers the parser overrides. An
  attribute written without a value has the value \<open>None\<close>.
\<close>

datatype html_event =
    StartTag string "(string \<times> string option) list"
  | Data string
  | EndTag string

text \<open>
  \<open>current_package\<close> is a dict with the keys \<open>name\<close> and \<open>href\<close>, and \<open>version\<close> and
  \<open>summary\<close> once they are set.
\<close>

record package =
  pkg_name :: string
  pkg_href :: string
  pkg_version :: "string option"
  pkg_summary :: "string option"

record PyPISearchParser =
  results :: "SearchResult list"
  current_package :: "package option"
  in_package_section :: bool
  current_tag :: "string option"
  current_data :: "string list"

definition parser_init :: PyPISearchParser where
  "parser_init = \<lparr> results = [], current_package = None, in_package_section = False,
                    current_tag = None, current_data = [] \<rparr>"

text \<open>\<open>dict(attrs)\<close>: of two attributes of the same name the later one stays.\<close>

definition attrs_dict :: "(string \<times> string option) list \<Rightarrow> string \<Rightarrow> string option option" where
  "attrs_dict attrs = map_of (rev attrs)"

text \<open>\<open>attrs_dict.get("class", "").split()\<close>: \<open>None.split()\<close> raises.\<close>

definition class_tokens :: "(string \<times> string option) list \<Rightarrow> py_error + string list" where
  "class_tokens attrs =
     (case attrs_dict attrs ''class'' of
        None \<Rightarrow> Inr (split_ws [])
      | Some None \<Rightarrow> Inl (AttributeError ''NoneType'' ''split'')
      | Some (Some v) \<Rightarrow> Inr (split_ws v))"

definition handle_starttag ::
  "PyPISearchParser \<Rightarrow> string \<Rightarrow> (string \<times> string option) list \<Rightarrow> py_error + PyPISearchParser" where
  "handle_starttag self tag attrs =
     (let self1 = self\<lparr> current_tag := Some tag \<rparr>;
          classes = (case attrs_dict attrs ''class'' of
                       Some (Some v) \<Rightarrow> if v = [] then [] else split_ws v
                     | _ \<Rightarrow> [])
      in if tag = ''a'' \<and> attrs_dict attrs ''class'' \<noteq> None
            \<and> (''package-snippet'' \<in> set classes \<or> ''snippet'' \<in> set classes)
         then (let self2 = self1\<lparr> in_package_section := True \<rparr>
               in case (case attrs_dict attrs ''href'' of None \<Rightarrow> Some [] | Some v \<Rightarrow> v) of
                    None \<Rightarrow> Inl (TypeError ''expected string or bytes-like object'')
                  | Some href \<Rightarrow>
                      (case re_search False project_regex href of
                         Some m \<Rightarrow>
                           Inr (self2\<lparr> current_package :=
                                  Some \<lparr> pkg_name = match_group m 1, pkg_href = href,
                                         pkg_version = None, pkg_summary = None \<rparr> \<rparr>)
                       | None \<Rightarrow> Inr self2))
         else py_bind
                (if tag = ''span'' \<and> in_package_section self1
                 then py_bind (class_tokens attrs) (\<lambda>classes.
                        if ''package-snippet__version'' \<in> set classes \<or> ''version'' \<in> set classes
                        then Inr (self1\<lparr> current_data := [] \<rparr>) else Inr self1)
                 else Inr self1) (\<lambda>self3.
                if tag = ''p'' \<and> in_package_section self3
                then py_bind (class_tokens attrs) (\<lambda>classes.
                       if ''package-snippet__description'' \<in> set classes \<or> ''description'' \<in> set classes
                       then Inr (self3\<lparr> current_data := [] \<rparr>) else Inr self3)
                else Inr self3))"

definition handle_data :: "PyPISearchParser \<Rightarrow> string \<Rightarrow> PyPISearchParser" where
  "handle_data self data0 =
     (if \<not> in_package_section self then self
      else let data = strip data0 in
        if data = [] then self
        else if current_tag self = Some ''span'' then
          (case (re_search False version_regex data, current_package self) of
             (Some version_match, Some pkg) \<Rightarrow>
               self\<lparr> current_package := Some (pkg\<lparr> pkg_version := Some (match_group version_match 1) \<rparr>) \<rparr>
           | _ \<Rightarrow> self)
        else if current_tag self = Some ''p'' then
          (case current_package self of
             Some pkg \<Rightarrow>
               if pkg_summary pkg = None
               then self\<lparr> current_package := Some (pkg\<lparr> pkg_summary := Some data \<rparr>) \<rparr>
               else self
           | None \<Rightarrow> self)
        else self)"

definition handle_endtag :: "PyPISearchParser \<Rightarrow> string \<Rightarrow> PyPISearchParser" where
  "handle_endtag self tag =
     (let self1 =
        (if tag = ''a'' \<and> in_package_section self then
           (case current_package self of
              Some pkg \<Rightarrow>
                self\<lparr> results := results self @
                         [\<lparr> sr_name = pkg_name pkg,
                            sr_version = (case pkg_version pkg of Some v \<Rightarrow> v | None \<Rightarrow> []),
                            sr_summary = pkg_summary pkg, sr_score = None \<rparr>],
                      current_package := None \<rparr>
            | None \<Rightarrow> self)\<lparr> in_package_section := False \<rparr>
         else self)
      in self1\<lparr> current_tag := None, current_data := [] \<rparr>)"

fun feed :: "PyPISearchParser \<Rightarrow> html_event list \<Rightarrow> py_error + PyPISearchParser" where
  "feed self [] = Inr self"
| "feed self (StartTag tag attrs # evs) = py_bind (handle_starttag self tag attrs) (\<lambda>self'. feed self' evs)"
| "feed self (Data d # evs) = feed (handle_data self d) evs"
| "feed self (EndTag tag # evs) = feed (handle_endtag self tag) evs"

section \<open>Search\<close>

text \<open>
  The loop of \<open>_fallback_search_parse\<close> over the matches still to visit, with the names
  seen and the results so far.
\<close>

fun fallback_loop ::
  "string \<Rightarrow> int \<Rightarrow> string set \<Rightarrow> SearchResult list \<Rightarrow> rmatch list \<Rightarrow> SearchResult list" where
  "fallback_loop html limit seen res [] = res"
| "fallback_loop html limit seen res (m # matches) =
     (let package_name = match_group m 1 in
      if package_name \<in> seen then fallback_loop html limit seen res matches
      else
        (let ver = (case re_search False (nearby_version_regex package_name)
                           (take (m_end m + 200 - m_start m) (drop (m_start m) html)) of
                      Some version_match \<Rightarrow> match_group version_match 1
                    | None \<Rightarrow> ''unknown'');
             res' = res @ [\<lparr> sr_name = package_name, sr_version = ver,
                              sr_summary = None, sr_score = None \<rparr>]
         in if limit \<le> int (length res') then res'
            else fallback_loop html limit (insert package_name seen) res' matches))"

definition fallback_search_parse :: "string \<Rightarrow> int \<Rightarrow> SearchResult list" where
  "fallback_search_parse html limit =
     fallback_loop html limit {} [] (re_finditer False fallback_regex html)"

definition search_request :: "string \<Rightarrow> request" where
  "search_request query =
     \<lparr> req_url = SEARCH_API_URL, req_params = [(''q'', query)],
       req_headers = [(''User-Agent'', ''Mozilla/5.0 (compatible; PyPICrawler/1.0)'')] \<rparr>"

text \<open>
  \<open>tokenize\<close> is the tokenizer of the standard library's \<open>HTMLParser\<close>: the events it
  dispatches for a page.
\<close>

definition search_packages ::
  "(string \<Rightarrow> html_event list) \<Rightarrow> PyPICrawler \<Rightarrow> string \<Rightarrow> int \<Rightarrow> py_error + SearchResult list" where
  "search_packages tokenize self query limit =
     (case http_get self (search_request query) of
        RequestFailed m \<Rightarrow> Inl (RuntimeError (''Failed to search packages: '' @ m) (RequestError m))
      | Response r0 \<Rightarrow>
          py_bind (raise_for_status r0) (\<lambda>r.
          py_bind (feed parser_init (tokenize (body_text r))) (\<lambda>parser.
            let res = py_slice_to (results parser) limit in
            if res = [] then Inr (fallback_search_parse (body_text r) limit) else Inr res)))"

section \<open>Distribution files\<close>









section \<open>Example registries\<close>

definition demo_json :: json where
  "demo_json = JObj [(''info'', JObj [(''name'', JStr ''demo''), (''version'', JStr ''9.9'')]),
                     (''releases'', JObj [(''1.0'', JList []), (''2.0'', JList []), (''10.0'', JList [])])]"

definition demo_registry :: "request \<Rightarrow> outcome" where
  "demo_registry req =
     (if req_url req = ''https://pypi.org/pypi/demo/json''
      then Response \<lparr> status_code = 200, body_json = Inr demo_json, body_text = [] \<rparr>
      else Response \<lparr> status_code = 404, body_json = Inl ''no body'', body_text = [] \<rparr>)"

text \<open>A registry that answers every request with the same status and JSON body.\<close>

definition fixed_registry :: "nat \<Rightarrow> string + json \<Rightarrow> request \<Rightarrow> outcome" where
  "fixed_registry status body req =
     Response \<lparr> status_code = status, body_json = body, body_text = [] \<rparr>"

definition offline_registry :: "request \<Rightarrow> outcome" where
  "offline_registry req = RequestFailed ''connection refused''"

text \<open>A crawler configured for another registry host.\<close>

definition mirror_crawler :: PyPICrawler where
  "mirror_crawler = init (Some ''https://mirror.example'') 10 True
     (fixed_registry 200 (Inr (JObj [(''info'', JObj [(''name'', JStr ''demo'')])])))"

definition deps_json :: "json \<Rightarrow> json" where
  "deps_json rd = JObj [(''info'', JObj [(''name'', JStr ''demo''), (''requires_dist'', rd)])]"

text \<open>A registry that answers every request with status 200 and the same page.\<close>

definition page_registry :: "string \<Rightarrow> request \<Rightarrow> outcome" where
  "page_registry html req =
     Response \<lparr> status_code = 200, body_json = Inl ''not JSON'', body_text = html \<rparr>"

text \<open>A page with one project link and no result container, and its events.\<close>

definition link_page :: string where
  \<open>link_page = ''<a href="/project/foo/">foo</a>''\<close>

definition link_page_events :: "html_event list" where
  "link_page_events =
     [StartTag ''a'' [(''href'', Some ''/project/foo/'')], Data ''foo'', EndTag ''a'']"




text \<open>The events of one result container that holds a name and a description and no version.\<close>

definition snippet_events :: "html_event list" where
  "snippet_events =
     [StartTag ''a'' [(''class'', Some ''package-snippet''), (''href'', Some ''/project/requests/'')],
      StartTag ''h3'' [(''class'', Some ''package-snippet__title'')],
      StartTag ''span'' [(''class'', Some ''package-snippet__name'')],
      Data ''requests'',
      EndTag ''span'',
      EndTag ''h3'',
      StartTag ''p'' [(''class'', Some ''package-snippet__description'')],
      Data ''Python HTTP for Humans.'',
      EndTag ''p'',
      EndTag ''a'']"

text \<open>
  A result container whose only element is the name, in a \<open>span\<close> of class
  \<open>package-snippet__name\<close>, for a project called \<open>demo2.0\<close>: the page and its events.
\<close>

definition versioned_name_page :: string where
  \<open>versioned_name_page = ''<a class="package-snippet" href="/project/demo2.0/"><span class="package-snippet__name">demo2.0</span></a>''\<close>

definition versioned_name_events :: "html_event list" where
  "versioned_name_events =
     [StartTag ''a'' [(''class'', Some ''package-snippet''), (''href'', Some ''/project/demo2.0/'')],
      StartTag ''span'' [(''class'', Some ''package-snippet__name'')],
      Data ''demo2.0'',
      EndTag ''span'',
      EndTag ''a'']"

section \<open>Notions of the claims\<close>



text \<open>A string that starts with a decimal digit, as every match of the version pattern does.\<close>

definition starts_with_digit :: "string \<Rightarrow> bool" where
  "starts_with_digit v = (case v of [] \<Rightarrow> False | c # _ \<Rightarrow> CHR ''0'' \<le> c \<and> c \<le> CHR ''9'')"

text \<open>
  The texts the parser reads as the content of a \<open>span\<close>: each data event that arrives
  while the last tag event was the start of a \<open>span\<close>, stripped. \<open>tag\<close> is the tag current
  before the events.
\<close>

fun span_texts :: "string option \<Rightarrow> html_event list \<Rightarrow> string list" where
  "span_texts tag [] = []"
| "span_texts tag (StartTag t as # evs) = span_texts (Some t) evs"
| "span_texts tag (EndTag t # evs) = span_texts None evs"
| "span_texts tag (Data d # evs) =
     (if tag = Some ''span'' then [strip d] else []) @ span_texts tag evs"

text \<open>
  Every version the parser holds, in a result or in the package under construction, is
  empty or starts with a digit.
\<close>

definition versions_shaped :: "PyPISearchParser \<Rightarrow> bool" where
  "versions_shaped self =
     (list_all (\<lambda>r. sr_version r = [] \<or> starts_with_digit (sr_version r)) (results self)
      \<and> (case current_package self of
            None \<Rightarrow> True
          | Some pkg \<Rightarrow> (case pkg_version pkg of None \<Rightarrow> True | Some v \<Rightarrow> starts_with_digit v)))"

section \<open>Basic facts\<close>

lemma py_bind_simps [simp]:
  "py_bind (Inl e) f = Inl e"
  "py_bind (Inr v) f = f v"
  by (simp_all add: py_bind_def)

lemma get_package_json_ok:
  assumes "http_get self (json_api_request package_name ver) = Response r"
    and "200 \<le> status_code r" and "status_code r < 300"
    and "body_json r = Inr j"
  shows "get_package_json self package_name ver = Inr j"
  using assms by (simp add: get_package_json_def raise_for_status_def response_json_def)

lemma py_bind_InrE:
  assumes "py_bind m f = Inr y"
  obtains v where "m = Inr v" and "f v = Inr y"
  using assms by (cases m) simp_all

lemma sorted_reverse_desc: "sorted_wrt (\<lambda>a b. b \<le> a) (sorted_reverse xs)"
  by (simp add: sorted_reverse_def sorted_wrt_rev)

lemma sorted_reverse_strict:
  "distinct xs \<Longrightarrow> sorted_wrt (\<lambda>a b. b < a) (sorted_reverse xs)"
  by (simp add: sorted_reverse_def sorted_wrt_rev strict_sorted_iff)

lemma sorted_reverse_Nil_iff [simp]: "sorted_reverse xs = [] \<longleftrightarrow> xs = []"
  unfolding sorted_reverse_def by (metis length_0_conv length_sort rev_is_Nil_conv)

lemma from_json_version:
  assumes "map_of d ''releases'' = Some (JObj rel)" and "rel \<noteq> []"
    and "from_json str_of (JObj d) = Inr p"
  shows "\<exists>v vs. sorted_reverse (map fst rel) = v # vs \<and> version p = JStr v"
  using assms
  by (auto simp: from_json_def dict_get_def elim!: py_bind_InrE split: list.splits)

section \<open>Version listing\<close>

text \<open>
  C1. When the registry answers the project-level request for \<open>demo\<close> with status 200 and
  the metadata \<open>{"info": {"name": "demo", "version": "9.9"}, "releases": {"1.0": [],
  "2.0": [], "10.0": []}}\<close>, \<open>get_package_versions("demo")\<close> returns exactly
  \<open>["2.0", "10.0", "1.0"]\<close>: the release keys in descending string order, not in
  numeric order.
\<close>

theorem C1_demo_versions:
  assumes "http_get self (json_api_request ''demo'' None) = Response r"
    and "status_code r = 200"
    and "body_json r = Inr demo_json"
  shows "get_package_versions self ''demo'' = Inr [''2.0'', ''10.0'', ''1.0'']"
proof -
  have j: "get_package_json self ''demo'' None = Inr demo_json"
    using assms by (simp add: get_package_json_ok)
  have s: "sorted_reverse [''1.0'', ''2.0'', ''10.0''] = [''2.0'', ''10.0'', ''1.0'']"
    by (simp add: sorted_reverse_def)
  show ?thesis
    by (simp add: get_package_versions_def j demo_json_def dict_get_def s)
qed

text \<open>
  The theorem at the \<open>demo\<close> registry; the listing differs from the numeric order
  \<open>["10.0", "2.0", "1.0"]\<close>.
\<close>

theorem C1_demo_versions_witness:
  "get_package_versions (init None 10 True demo_registry) ''demo'' = Inr [''2.0'', ''10.0'', ''1.0'']
   \<and> [''2.0'', ''10.0'', ''1.0''] \<noteq> [''10.0'', ''2.0'', ''1.0'']"
proof -
  have "http_get (init None 10 True demo_registry) (json_api_request ''demo'' None)
        = Response \<lparr> status_code = 200, body_json = Inr demo_json, body_text = [] \<rparr>"
    by (simp add: init_def demo_registry_def json_api_request_def json_api_url_def
        JSON_API_URL_def BASE_URL_def)
  from C1_demo_versions [OF this] show ?thesis by simp
qed

text \<open>
  C2. For every project-level response (status 2xx, a JSON object) whose release map is a
  non-empty object, \<open>get_package_versions\<close> returns a non-empty list \<open>v # vs\<close> of exactly
  the release keys, in non-increasing string order (strictly decreasing, the keys of a dict
  being distinct), and whenever \<open>get_package_info\<close>, called without a version on the same
  response, returns a \<open>PackageInfo\<close>, its \<open>version\<close> is the head \<open>v\<close>.
\<close>

theorem C2_versions_sorted_head:
  assumes "http_get self (json_api_request package_name None) = Response r"
    and "200 \<le> status_code r" and "status_code r < 300"
    and "body_json r = Inr (JObj d)"
    and "map_of d ''releases'' = Some (JObj rel)"
    and "rel \<noteq> []"
  shows "\<exists>v vs. get_package_versions self package_name = Inr (v # vs)
           \<and> sorted_wrt (\<lambda>a b. b \<le> a) (v # vs)
           \<and> set (v # vs) = fst ` set rel
           \<and> (distinct (map fst rel) \<longrightarrow> sorted_wrt (\<lambda>a b. b < a) (v # vs))
           \<and> (\<forall>p. get_package_info str_of self package_name None = Inr (Some p)
                  \<longrightarrow> version p = JStr v)"
proof -
  have j: "get_package_json self package_name None = Inr (JObj d)"
    using assms(1-4) by (rule get_package_json_ok)
  have gv: "get_package_versions self package_name = Inr (sorted_reverse (map fst rel))"
    using assms(5) by (simp add: get_package_versions_def j dict_get_def)
  from assms(6) obtain v vs where vs: "sorted_reverse (map fst rel) = v # vs"
    by (cases "sorted_reverse (map fst rel)") simp_all
  have head: "version p = JStr v"
    if "get_package_info str_of self package_name None = Inr (Some p)" for p
  proof -
    from that have "from_json str_of (JObj d) = Inr p"
      by (simp add: get_package_info_def j split: sum.splits option.splits)
    from from_json_version [OF assms(5,6) this] vs show ?thesis by simp
  qed
  have "sorted_wrt (\<lambda>a b. b \<le> a) (v # vs)"
    using sorted_reverse_desc [of "map fst rel"] vs by simp
  moreover have "set (v # vs) = fst ` set rel"
    using vs by (metis list.set_map sorted_reverse_def set_rev set_sort)
  moreover have "distinct (map fst rel) \<longrightarrow> sorted_wrt (\<lambda>a b. b < a) (v # vs)"
    using sorted_reverse_strict [of "map fst rel"] vs by simp
  ultimately show ?thesis using gv vs head by auto
qed

text \<open>
  The theorem at the \<open>demo\<close> registry: the listing is \<open>["2.0", "10.0", "1.0"]\<close> and
  \<open>get_package_info\<close> returns a record of version \<open>"2.0"\<close>.
\<close>

theorem C2_versions_sorted_head_witness:
  "get_package_versions (init None 10 True demo_registry) ''demo'' = Inr [''2.0'', ''10.0'', ''1.0'']
   \<and> (\<exists>p. get_package_info (\<lambda>v. []) (init None 10 True demo_registry) ''demo'' None = Inr (Some p)
          \<and> version p = JStr ''2.0'')"
proof -
  let ?c = "init None 10 True demo_registry"
  let ?r = "\<lparr> status_code = 200, body_json = Inr demo_json, body_text = [] \<rparr>"
  let ?rel = "[(''1.0'', JList []), (''2.0'', JList []), (''10.0'', JList [])]"
  let ?d = "[(''info'', JObj [(''name'', JStr ''demo''), (''version'', JStr ''9.9'')]),
             (''releases'', JObj ?rel)]"
  have h1: "http_get ?c (json_api_request ''demo'' None) = Response ?r"
    by (simp add: init_def demo_registry_def json_api_request_def json_api_url_def
        JSON_API_URL_def BASE_URL_def)
  have h2: "200 \<le> status_code ?r" and h3: "status_code ?r < 300" by simp_all
  have h4: "body_json ?r = Inr (JObj ?d)" by (simp add: demo_json_def)
  have h5: "map_of ?d ''releases'' = Some (JObj ?rel)" by simp
  have h6: "?rel \<noteq> []" by simp
  from C2_versions_sorted_head [OF h1 h2 h3 h4 h5 h6, of "\<lambda>v. []"]
  obtain v vs where gv: "get_package_versions ?c ''demo'' = Inr (v # vs)"
    and hd: "\<forall>p. get_package_info (\<lambda>v. []) ?c ''demo'' None = Inr (Some p) \<longrightarrow> version p = JStr v"
    by blast
  have j: "get_package_json ?c ''demo'' None = Inr demo_json"
    using h1 by (simp add: get_package_json_ok)
  have s: "sorted_reverse [''1.0'', ''2.0'', ''10.0''] = [''2.0'', ''10.0'', ''1.0'']"
    by (simp add: sorted_reverse_def)
  have gv': "get_package_versions ?c ''demo'' = Inr [''2.0'', ''10.0'', ''1.0'']"
    by (simp add: get_package_versions_def j demo_json_def dict_get_def s)
  have "\<exists>p. get_package_info (\<lambda>v. []) ?c ''demo'' None = Inr (Some p)"
    by (simp add: get_package_info_def j demo_json_def from_json_def dict_get_def s py_or_def)
  then obtain p where p: "get_package_info (\<lambda>v. []) ?c ''demo'' None = Inr (Some p)" ..
  with hd have "version p = JStr v" by blast
  moreover from gv gv' have "v = ''2.0''" by simp
  ultimately show ?thesis using gv' p by blast
qed

section \<open>Outcomes of the metadata request\<close>

text \<open>
  C4. For every call \<open>get_package_json(name, version?)\<close>: a response of status 404 yields
  \<open>None\<close>, returned and not raised; a response of any other status outside 2xx raises the
  \<open>HTTPStatusError\<close> carrying that status; a network-level failure raises a \<open>RuntimeError\<close>
  whose cause is that failure and whose message is
  \<open>"Failed to fetch package info for <name>: <failure>"\<close>, so it contains the package name.
\<close>

theorem C4_get_package_json_outcomes:
  "(http_get self (json_api_request package_name ver) = Response r \<and> status_code r = 404
      \<longrightarrow> get_package_json self package_name ver = Inr JNull)
   \<and> (http_get self (json_api_request package_name ver) = Response r \<and> status_code r \<noteq> 404
        \<and> \<not> (200 \<le> status_code r \<and> status_code r < 300)
      \<longrightarrow> get_package_json self package_name ver = Inl (HTTPStatusError (status_code r)))
   \<and> (http_get self (json_api_request package_name ver) = RequestFailed m
      \<longrightarrow> get_package_json self package_name ver
          = Inl (RuntimeError (''Failed to fetch package info for '' @ package_name @ '': '' @ m)
                   (RequestError m)))"
  by (simp add: get_package_json_def raise_for_status_def)

text \<open>
  The three outcomes at concrete registries: status 404, status 503 and a refused
  connection.
\<close>

theorem C4_get_package_json_outcomes_witness:
  "get_package_json (init None 10 True (fixed_registry 404 (Inl []))) ''demo'' None = Inr JNull
   \<and> get_package_json (init None 10 True (fixed_registry 503 (Inl []))) ''demo'' (Some ''1.0'')
       = Inl (HTTPStatusError 503)
   \<and> get_package_json (init None 10 True offline_registry) ''demo'' None
       = Inl (RuntimeError ''Failed to fetch package info for demo: connection refused''
                (RequestError ''connection refused''))"
proof -
  let ?a = "init None 10 True (fixed_registry 404 (Inl []))"
  let ?b = "init None 10 True (fixed_registry 503 (Inl []))"
  let ?c = "init None 10 True offline_registry"
  let ?r4 = "\<lparr> status_code = 404, body_json = Inl [], body_text = [] \<rparr>"
  let ?r5 = "\<lparr> status_code = 503, body_json = Inl [], body_text = [] \<rparr>"
  have a: "http_get ?a (json_api_request ''demo'' None) = Response ?r4 \<and> status_code ?r4 = 404"
    by (simp add: init_def fixed_registry_def)
  have b: "http_get ?b (json_api_request ''demo'' (Some ''1.0'')) = Response ?r5 \<and> status_code ?r5 \<noteq> 404
        \<and> \<not> (200 \<le> status_code ?r5 \<and> status_code ?r5 < 300)"
    by (simp add: init_def fixed_registry_def)
  have c: "http_get ?c (json_api_request ''demo'' None) = RequestFailed ''connection refused''"
    by (simp add: init_def offline_registry_def)
  from a C4_get_package_json_outcomes [of ?a "''demo''" None ?r4]
  have 1: "get_package_json ?a ''demo'' None = Inr JNull" by blast
  from b C4_get_package_json_outcomes [of ?b "''demo''" "Some ''1.0''" ?r5]
  have 2: "get_package_json ?b ''demo'' (Some ''1.0'') = Inl (HTTPStatusError 503)" by simp
  from c C4_get_package_json_outcomes [of ?c "''demo''" None _ "''connection refused''"]
  have 3: "get_package_json ?c ''demo'' None
       = Inl (RuntimeError ''Failed to fetch package info for demo: connection refused''
                (RequestError ''connection refused''))" by simp
  from 1 2 3 show ?thesis by blast
qed

section \<open>Malformed metadata\<close>

text \<open>
  When the \<open>info\<close> value of a 2xx response is not an object (and the response has no
  release map), \<open>from_json\<close> raises \<open>AttributeError\<close>, which the handler of
  \<open>get_package_info\<close> does not catch: it propagates as it is.
\<close>

lemma get_package_info_info_not_dict:
  assumes "http_get self (json_api_request package_name ver) = Response r"
    and "200 \<le> status_code r" and "status_code r < 300"
    and "body_json r = Inr (JObj d)"
    and "map_of d ''info'' = Some info" and "\<forall>i. info \<noteq> JObj i"
    and "map_of d ''releases'' = None"
  shows "get_package_info str_of self package_name ver = Inl (AttributeError (type_name info) ''get'')"
proof -
  have j: "get_package_json self package_name ver = Inr (JObj d)"
    using assms(1-4) by (rule get_package_json_ok)
  show ?thesis using assms(5-7)
    by (cases info) (simp_all add: get_package_info_def j from_json_def dict_get_def)
qed

text \<open>
  C5. The claim is that every 2xx response lacking the metadata substructure makes
  \<open>get_package_info\<close> raise the parse error carrying the package name. At the body
  \<open>{"info": "oops"}\<close> it raises a bare \<open>AttributeError\<close> instead. The wrapping
  \<open>ValueError\<close> with the package name is raised for a \<open>TypeError\<close>, as at
  \<open>{"info": {"requires_dist": 5}}\<close>; a body without \<open>info\<close> raises nothing and yields a
  record with the empty name.
\<close>

theorem C5_unwrapped_attribute_error:
  "get_package_info str_of (init None 10 True (fixed_registry 200 (Inr (JObj [(''info'', JStr ''oops'')]))))
      ''demo'' None
     = Inl (AttributeError ''str'' ''get'')
   \<and> get_package_info str_of
        (init None 10 True (fixed_registry 200 (Inr (JObj [(''info'', JObj [(''requires_dist'', JNum 5)])]))))
        ''demo'' None
     = Inl (ValueError (''Failed to parse package info for demo: '' @ [CHR 0x27] @ ''int'' @ [CHR 0x27] @ '' object is not iterable'')
              (TypeError ([CHR 0x27] @ ''int'' @ [CHR 0x27] @ '' object is not iterable'')))
   \<and> (\<exists>p. get_package_info str_of (init None 10 True (fixed_registry 200 (Inr (JObj [])))) ''demo'' None
          = Inr (Some p) \<and> name p = JStr [])"
  by (simp add: get_package_info_def get_package_json_def init_def fixed_registry_def
      raise_for_status_def response_json_def from_json_def dict_get_def py_or_def format_value_def)

section \<open>Project URL\<close>

text \<open>
  C6, as claimed, fails: a crawler configured with the base URL
  \<open>https://mirror.example\<close> still synthesizes \<open>https://pypi.org/project/demo/\<close>.
\<close>

theorem C6_project_url_ignores_base_url_counterexample:
  "base_url mirror_crawler = ''https://mirror.example''
   \<and> (\<exists>p. get_package_info (\<lambda>v. []) mirror_crawler ''demo'' None = Inr (Some p)
          \<and> project_url p = JStr ''https://pypi.org/project/demo/''
          \<and> project_url p \<noteq> JStr (base_url mirror_crawler @ ''/project/'' @ ''demo'' @ ''/''))"
  by (simp add: mirror_crawler_def get_package_info_def get_package_json_def init_def fixed_registry_def
      raise_for_status_def response_json_def from_json_def dict_get_def py_or_def format_value_def)

text \<open>
  C6, amended. For every crawler, whatever base URL it is configured with: when the
  \<open>info\<close> object of the response has no \<open>project_url\<close> field and its \<open>name\<close> is the string
  \<open>n\<close>, the \<open>PackageInfo\<close> that \<open>get_package_info\<close> returns has \<open>project_url\<close> equal to
  \<open>https://pypi.org/project/n/\<close>.
\<close>

theorem C6_project_url_fixed_host:
  assumes "http_get self (json_api_request package_name ver) = Response r"
    and "200 \<le> status_code r" and "status_code r < 300"
    and "body_json r = Inr (JObj d)"
    and "map_of d ''info'' = Some (JObj i)"
    and "map_of i ''project_url'' = None"
    and "map_of i ''name'' = Some (JStr n)"
    and "get_package_info str_of self package_name ver = Inr (Some p)"
  shows "project_url p = JStr (''https://pypi.org/project/'' @ n @ ''/'')"
proof -
  have j: "get_package_json self package_name ver = Inr (JObj d)"
    using assms(1-4) by (rule get_package_json_ok)
  from assms(8) have "from_json str_of (JObj d) = Inr p"
    by (simp add: get_package_info_def j split: sum.splits option.splits)
  with assms(5-7) show ?thesis
    by (auto simp: from_json_def dict_get_def format_value_def elim!: py_bind_InrE)
qed

text \<open>
  The amended statement at the crawler configured for \<open>https://mirror.example\<close>.
\<close>

theorem C6_project_url_fixed_host_witness:
  "\<exists>p. get_package_info (\<lambda>v. []) mirror_crawler ''demo'' None = Inr (Some p)
       \<and> project_url p = JStr ''https://pypi.org/project/demo/''"
proof -
  let ?i = "[(''name'', JStr ''demo'')]"
  let ?d = "[(''info'', JObj ?i)]"
  let ?r = "\<lparr> status_code = 200, body_json = Inr (JObj ?d), body_text = [] \<rparr>"
  have h1: "http_get mirror_crawler (json_api_request ''demo'' None) = Response ?r"
    by (simp add: mirror_crawler_def init_def fixed_registry_def)
  have h2: "200 \<le> status_code ?r" and h3: "status_code ?r < 300"
    and h4: "body_json ?r = Inr (JObj ?d)" and h5: "map_of ?d ''info'' = Some (JObj ?i)"
    and h6: "map_of ?i ''project_url'' = None" and h7: "map_of ?i ''name'' = Some (JStr ''demo'')"
    by simp_all
  have "\<exists>p. get_package_info (\<lambda>v. []) mirror_crawler ''demo'' None = Inr (Some p)"
    by (simp add: mirror_crawler_def get_package_info_def get_package_json_def init_def
        fixed_registry_def raise_for_status_def response_json_def from_json_def dict_get_def
        py_or_def format_value_def)
  then obtain p where p: "get_package_info (\<lambda>v. []) mirror_crawler ''demo'' None = Inr (Some p)" ..
  from C6_project_url_fixed_host [OF h1 h2 h3 h4 h5 h6 h7 p] p show ?thesis by auto
qed

section \<open>Dependencies\<close>

text \<open>
  C8. For every package name and optional version: when the registry answers 404,
  \<open>get_package_dependencies\<close> returns the empty list instead of propagating the absence;
  when it answers 2xx with an \<open>info\<close> object, the result is the \<open>requires_dist\<close> list of that
  object when it is a list, and the empty list when the field is missing or null.
\<close>

theorem C8_dependencies:
  "(http_get self (json_api_request package_name ver) = Response r \<and> status_code r = 404
      \<longrightarrow> get_package_dependencies self package_name ver = Inr [])
   \<and> (http_get self (json_api_request package_name ver) = Response r
        \<and> 200 \<le> status_code r \<and> status_code r < 300
        \<and> body_json r = Inr (JObj d) \<and> map_of d ''info'' = Some (JObj i)
      \<longrightarrow> (\<forall>xs. map_of i ''requires_dist'' = Some (JList xs)
               \<longrightarrow> get_package_dependencies self package_name ver = Inr xs)
          \<and> (map_of i ''requires_dist'' = None
               \<longrightarrow> get_package_dependencies self package_name ver = Inr [])
          \<and> (map_of i ''requires_dist'' = Some JNull
               \<longrightarrow> get_package_dependencies self package_name ver = Inr []))"
  by (auto simp: get_package_dependencies_def get_package_metadata_def get_package_json_def
      raise_for_status_def response_json_def dict_get_def)

text \<open>
  The four cases at concrete registries: absent package, a list of two requirements,
  no \<open>requires_dist\<close> field, and a null \<open>requires_dist\<close>.
\<close>

theorem C8_dependencies_witness:
  "get_package_dependencies (init None 10 True (fixed_registry 404 (Inl []))) ''demo'' None = Inr []
   \<and> get_package_dependencies
        (init None 10 True (fixed_registry 200 (Inr (deps_json (JList [JStr ''httpx>=0.24'', JStr ''rich'']))))) ''demo'' (Some ''1.0'')
       = Inr [JStr ''httpx>=0.24'', JStr ''rich'']
   \<and> get_package_dependencies
        (init None 10 True (fixed_registry 200 (Inr (JObj [(''info'', JObj [(''name'', JStr ''demo'')])])))) ''demo'' None
       = Inr []
   \<and> get_package_dependencies (init None 10 True (fixed_registry 200 (Inr (deps_json JNull)))) ''demo'' None
       = Inr []"
proof -
  let ?a = "init None 10 True (fixed_registry 404 (Inl []))"
  let ?r4 = "\<lparr> status_code = 404, body_json = Inl [], body_text = [] \<rparr>"
  have a: "http_get ?a (json_api_request ''demo'' None) = Response ?r4 \<and> status_code ?r4 = 404"
    by (simp add: init_def fixed_registry_def)
  from a C8_dependencies [of ?a "''demo''" None ?r4]
  have 1: "get_package_dependencies ?a ''demo'' None = Inr []" by blast
  let ?xs = "[JStr ''httpx>=0.24'', JStr ''rich'']"
  let ?ib = "[(''name'', JStr ''demo''), (''requires_dist'', JList ?xs)]"
  let ?db = "[(''info'', JObj ?ib)]"
  let ?rb = "\<lparr> status_code = 200, body_json = Inr (JObj ?db), body_text = [] \<rparr>"
  let ?b = "init None 10 True (fixed_registry 200 (Inr (deps_json (JList ?xs))))"
  have b: "http_get ?b (json_api_request ''demo'' (Some ''1.0'')) = Response ?rb
        \<and> 200 \<le> status_code ?rb \<and> status_code ?rb < 300
        \<and> body_json ?rb = Inr (JObj ?db) \<and> map_of ?db ''info'' = Some (JObj ?ib)"
    by (simp add: init_def fixed_registry_def deps_json_def)
  have b': "map_of ?ib ''requires_dist'' = Some (JList ?xs)" by simp
  from b b' C8_dependencies [of ?b "''demo''" "Some ''1.0''" ?rb ?db ?ib]
  have 2: "get_package_dependencies ?b ''demo'' (Some ''1.0'') = Inr ?xs" by blast
  let ?ic = "[(''name'', JStr ''demo'')]"
  let ?dc = "[(''info'', JObj ?ic)]"
  let ?rc = "\<lparr> status_code = 200, body_json = Inr (JObj ?dc), body_text = [] \<rparr>"
  let ?c = "init None 10 True (fixed_registry 200 (Inr (JObj ?dc)))"
  have c: "http_get ?c (json_api_request ''demo'' None) = Response ?rc
        \<and> 200 \<le> status_code ?rc \<and> status_code ?rc < 300
        \<and> body_json ?rc = Inr (JObj ?dc) \<and> map_of ?dc ''info'' = Some (JObj ?ic)"
    by (simp add: init_def fixed_registry_def)
  have c': "map_of ?ic ''requires_dist'' = None" by simp
  from c c' C8_dependencies [of ?c "''demo''" None ?rc ?dc ?ic]
  have 3: "get_package_dependencies ?c ''demo'' None = Inr []" by blast
  let ?ie = "[(''name'', JStr ''demo''), (''requires_dist'', JNull)]"
  let ?de = "[(''info'', JObj ?ie)]"
  let ?re = "\<lparr> status_code = 200, body_json = Inr (JObj ?de), body_text = [] \<rparr>"
  let ?e = "init None 10 True (fixed_registry 200 (Inr (deps_json JNull)))"
  have e: "http_get ?e (json_api_request ''demo'' None) = Response ?re
        \<and> 200 \<le> status_code ?re \<and> status_code ?re < 300
        \<and> body_json ?re = Inr (JObj ?de) \<and> map_of ?de ''info'' = Some (JObj ?ie)"
    by (simp add: init_def fixed_registry_def deps_json_def)
  have e': "map_of ?ie ''requires_dist'' = Some JNull" by simp
  from e e' C8_dependencies [of ?e "''demo''" None ?re ?de ?ie]
  have 4: "get_package_dependencies ?e ''demo'' None = Inr []" by blast
  from 1 2 3 4 show ?thesis by blast
qed

section \<open>Search with a limit of zero\<close>

lemma search_packages_limit_0:
  assumes "http_get self (search_request query) = Response r"
    and "200 \<le> status_code r" and "status_code r < 300"
    and "feed parser_init (tokenize (body_text r)) = Inr st"
  shows "search_packages tokenize self query 0 = Inr (fallback_search_parse (body_text r) 0)"
  using assms by (simp add: search_packages_def raise_for_status_def py_slice_to_def)

text \<open>
  C3. The claim is that \<open>search_packages(query, limit=0)\<close> returns the empty list for
  every page. The slice \<open>parser.results[:0]\<close> is empty, so the fallback runs, and its
  loop tests the limit only after it has appended a result: for the page
  \<open><a href="/project/foo/">foo</a>\<close> the call returns one result.
\<close>

theorem C3_limit_zero_returns_a_result:
  "search_packages (\<lambda>html. link_page_events) (init None 10 True (page_registry link_page)) ''foo'' 0
     = Inr [\<lparr> sr_name = ''foo'', sr_version = ''unknown'', sr_summary = None, sr_score = None \<rparr>]"
  by code_simp

section \<open>Matching engine\<close>




lemma lazy_tails_ne [simp]: "lazy_tails ic a s \<noteq> []"
  by (cases s) simp_all



lemma search_from_Some:
  assumes "search_from ic p pos s = Some m"
  shows "\<exists>pos' s' tg rest. ms ic p (s', []) = tg # rest \<and> m = mk_match pos' s' tg"
  using assms
proof (induction s arbitrary: pos)
  case Nil
  then obtain tg rest where "ms ic p ([], []) = tg # rest" and "m = mk_match pos [] tg"
    by (auto split: list.splits)
  then show ?case by blast
next
  case (Cons c cs)
  show ?case
  proof (cases "ms ic p (c # cs, [])")
    case Nil
    with Cons.prems have "search_from ic p (Suc pos) cs = Some m" by simp
    then show ?thesis by (rule Cons.IH)
  next
    case (Cons tg rest)
    with Cons.prems have "m = mk_match pos (c # cs) tg" by simp
    with Cons show ?thesis by blast
  qed
qed

section \<open>Hash fragments\<close>








section \<open>Hashes of distribution files\<close>










section \<open>Versions from the structured extractor\<close>

lemma lazy_tails_length:
  "t \<in> set (lazy_tails ic a s) \<Longrightarrow> length t \<le> length s"
  by (induction s) (auto split: if_splits)

lemma tl_lazy_tails:
  assumes "t \<in> set (tl (lazy_tails ic a s))"
  shows "\<exists>c cs. s = c # cs \<and> atom_match ic a c \<and> length t \<le> length cs"
  using assms by (cases s) (auto split: if_splits dest: lazy_tails_length)

lemma ms_length:
  "(t, g') \<in> set (ms ic p (s, g)) \<Longrightarrow> length t \<le> length s"
proof (induction p arbitrary: s g t g')
  case Eps
  then show ?case by simp
next
  case (One a)
  then show ?case by (cases s) (auto split: if_splits)
next
  case (Star a)
  then show ?case by (auto dest: lazy_tails_length)
next
  case (Plus a)
  then show ?case by (auto dest!: tl_lazy_tails)
next
  case (LazyStar a)
  then show ?case by (auto dest: lazy_tails_length)
next
  case (LazyPlus a)
  then show ?case by (auto dest!: tl_lazy_tails)
next
  case (Cat p q)
  from Cat.prems obtain s1 g1 where 1: "(s1, g1) \<in> set (ms ic p (s, g))"
    and 2: "(t, g') \<in> set (ms ic q (s1, g1))" by auto
  from Cat.IH(1) [OF 1] Cat.IH(2) [OF 2] show ?case by simp
next
  case (Alt p q)
  then show ?case by auto
next
  case (Opt p)
  then show ?case by auto
next
  case (Group n p)
  then show ?case by auto
qed

lemma group_plus_capture:
  assumes "tg \<in> set (ms ic (Group n (Cat (Plus a) q)) (s, g))"
  shows "\<exists>c cs g'. snd tg = (n, c # cs) # g' \<and> atom_match ic a c"
proof -
  from assms obtain t g' where tg: "tg = (t, (n, take (length s - length t) s) # g')"
    and "(t, g') \<in> set (ms ic (Cat (Plus a) q) (s, g))" by auto
  then obtain s1 where 1: "s1 \<in> set (tl (lazy_tails ic a s))"
    and 2: "(t, g') \<in> set (ms ic q (s1, g))" by auto
  from tl_lazy_tails [OF 1] obtain c cs where s: "s = c # cs" and m: "atom_match ic a c"
    and l: "length s1 \<le> length cs" by blast
  from ms_length [OF 2] l have "length t \<le> length cs" by simp
  then have "take (length s - length t) s = c # take (length cs - length t) cs"
    using s by (simp add: Suc_diff_le)
  with tg m show ?thesis by simp
qed

lemma version_match_shape:
  assumes "re_search False version_regex d = Some vm"
  shows "starts_with_digit (match_group vm 1)"
proof -
  from search_from_Some [OF assms [unfolded re_search_def]] obtain pos' s' tg rest where
    a: "ms False version_regex (s', []) = tg # rest" and b: "vm = mk_match pos' s' tg" by blast
  from a have "tg \<in> set (ms False version_regex (s', []))" by simp
  then have "\<exists>c cs g'. snd tg = (1, c # cs) # g' \<and> atom_match False (Cls [Digit]) c"
    unfolding version_regex_def seq.simps by (rule group_plus_capture)
  with b show ?thesis
    by (auto simp: match_group_def mk_match_def starts_with_digit_def cls_match_def)
qed

lemma handle_starttag_shaped:
  assumes "handle_starttag self tag attrs = Inr self'" and "versions_shaped self"
  shows "versions_shaped self'"
  using assms
  by (auto simp: handle_starttag_def versions_shaped_def Let_def
      split: if_splits option.splits elim!: py_bind_InrE)

lemma handle_data_shaped:
  assumes "versions_shaped self"
  shows "versions_shaped (handle_data self d)"
  using assms
  by (auto simp: handle_data_def versions_shaped_def Let_def
      split: if_splits option.splits dest: version_match_shape)

lemma handle_endtag_shaped:
  assumes "versions_shaped self"
  shows "versions_shaped (handle_endtag self tag)"
  using assms
  by (auto simp: handle_endtag_def versions_shaped_def Let_def split: if_splits option.splits)

lemma feed_shaped:
  assumes "feed self evs = Inr self'" and "versions_shaped self"
  shows "versions_shaped self'"
  using assms
proof (induction evs arbitrary: self)
  case Nil
  then show ?case by simp
next
  case (Cons ev evs)
  show ?case
  proof (cases ev)
    case (StartTag t as)
    with Cons.prems(1) obtain s1 where 1: "handle_starttag self t as = Inr s1"
      and 2: "feed s1 evs = Inr self'" by (auto elim!: py_bind_InrE)
    from handle_starttag_shaped [OF 1 Cons.prems(2)] 2 show ?thesis by (rule Cons.IH [rotated])
  next
    case (Data d)
    with Cons.prems(1) have "feed (handle_data self d) evs = Inr self'" by simp
    then show ?thesis using handle_data_shaped [OF Cons.prems(2)] by (rule Cons.IH)
  next
    case (EndTag t)
    with Cons.prems(1) have "feed (handle_endtag self t) evs = Inr self'" by simp
    then show ?thesis using handle_endtag_shaped [OF Cons.prems(2)] by (rule Cons.IH)
  qed
qed

lemma structured_never_unknown:
  assumes "feed parser_init evs = Inr self" and "r \<in> set (results self)"
  shows "sr_version r \<noteq> ''unknown''"
proof -
  have "versions_shaped parser_init" by (simp add: versions_shaped_def parser_init_def)
  from feed_shaped [OF assms(1) this] assms(2)
  have "sr_version r = [] \<or> starts_with_digit (sr_version r)"
    by (auto simp: versions_shaped_def list_all_iff)
  then show ?thesis by (auto simp: starts_with_digit_def)
qed

lemma feed_append:
  "feed self (xs @ ys) = py_bind (feed self xs) (\<lambda>self'. feed self' ys)"
proof (induction xs arbitrary: self)
  case Nil
  show ?case by simp
next
  case (Cons ev xs)
  show ?case
  proof (cases ev)
    case (StartTag t as)
    then show ?thesis using Cons.IH
      by (cases "handle_starttag self t as") simp_all
  next
    case (Data d)
    then show ?thesis using Cons.IH by simp
  next
    case (EndTag t)
    then show ?thesis using Cons.IH by simp
  qed
qed

lemma split_ws_Nil [simp]: "split_ws [] = []"
  by (simp add: split_ws_def)

lemma container_start:
  assumes "attrs_dict attrs ''class'' = Some (Some cv)"
    and "''package-snippet'' \<in> set (split_ws cv) \<or> ''snippet'' \<in> set (split_ws cv)"
    and "attrs_dict attrs ''href'' = Some (Some h)"
    and "re_search False project_regex h = Some m"
  shows "handle_starttag self ''a'' attrs =
           Inr (self\<lparr> current_tag := Some ''a'', in_package_section := True,
                      current_package := Some \<lparr> pkg_name = match_group m 1, pkg_href = h,
                                                 pkg_version = None, pkg_summary = None \<rparr> \<rparr>)"
proof -
  from assms(2) have "cv \<noteq> []" by auto
  with assms show ?thesis by (simp add: handle_starttag_def Let_def)
qed

lemma handle_starttag_other:
  assumes "handle_starttag self t as = Inr self'" and "t \<noteq> ''a''"
  shows "results self' = results self \<and> in_package_section self' = in_package_section self
         \<and> current_package self' = current_package self \<and> current_tag self' = Some t"
  using assms
  by (auto simp: handle_starttag_def Let_def split: if_splits elim!: py_bind_InrE)

lemma handle_data_unversioned:
  assumes "current_package self = Some pkg" and "pkg_version pkg = None"
    and "current_tag self = Some ''span'' \<longrightarrow> re_search False version_regex (strip d) = None"
  shows "results (handle_data self d) = results self
         \<and> in_package_section (handle_data self d) = in_package_section self
         \<and> current_tag (handle_data self d) = current_tag self
         \<and> (\<exists>pkg'. current_package (handle_data self d) = Some pkg'
                \<and> pkg_version pkg' = None \<and> pkg_name pkg' = pkg_name pkg)"
  using assms by (auto simp: handle_data_def Let_def)

lemma handle_endtag_other:
  assumes "t \<noteq> ''a''"
  shows "results (handle_endtag self t) = results self
         \<and> in_package_section (handle_endtag self t) = in_package_section self
         \<and> current_package (handle_endtag self t) = current_package self
         \<and> current_tag (handle_endtag self t) = None"
  using assms by (simp add: handle_endtag_def)

lemma inside_keeps:
  assumes "feed self inside = Inr self'"
    and "in_package_section self" and "current_package self = Some pkg"
    and "pkg_version pkg = None"
    and "\<forall>ev\<in>set inside. ev \<noteq> EndTag ''a'' \<and> (\<forall>as. ev \<noteq> StartTag ''a'' as)"
    and "\<forall>d\<in>set (span_texts (current_tag self) inside). re_search False version_regex d = None"
  shows "results self' = results self \<and> in_package_section self'
         \<and> (\<exists>pkg'. current_package self' = Some pkg' \<and> pkg_version pkg' = None
                \<and> pkg_name pkg' = pkg_name pkg)"
  using assms
proof (induction inside arbitrary: self pkg)
  case Nil
  then show ?case by simp
next
  case (Cons ev evs)
  show ?case
  proof (cases ev)
    case (StartTag t as)
    with Cons.prems(1) obtain s1 where 1: "handle_starttag self t as = Inr s1"
      and 2: "feed s1 evs = Inr self'" by (auto elim!: py_bind_InrE)
    from Cons.prems(5) StartTag have "t \<noteq> ''a''" by auto
    note k = handle_starttag_other [OF 1 this]
    have "results self' = results s1 \<and> in_package_section self'
         \<and> (\<exists>pkg'. current_package self' = Some pkg' \<and> pkg_version pkg' = None
                \<and> pkg_name pkg' = pkg_name pkg)"
      using 2 k Cons.prems(2-6) StartTag by (intro Cons.IH) auto
    with k show ?thesis by simp
  next
    case (Data d)
    with Cons.prems(1) have 2: "feed (handle_data self d) evs = Inr self'" by simp
    from Cons.prems(6) Data
    have v: "current_tag self = Some ''span'' \<longrightarrow> re_search False version_regex (strip d) = None"
      by auto
    from handle_data_unversioned [OF Cons.prems(3,4) v] obtain pkg' where
      k: "results (handle_data self d) = results self"
         "in_package_section (handle_data self d) = in_package_section self"
         "current_tag (handle_data self d) = current_tag self"
         "current_package (handle_data self d) = Some pkg'"
         "pkg_version pkg' = None" "pkg_name pkg' = pkg_name pkg" by blast
    have "results self' = results (handle_data self d) \<and> in_package_section self'
         \<and> (\<exists>pkg''. current_package self' = Some pkg'' \<and> pkg_version pkg'' = None
                \<and> pkg_name pkg'' = pkg_name pkg')"
      using 2 k Cons.prems(2,5,6) Data by (intro Cons.IH) auto
    with k show ?thesis by simp
  next
    case (EndTag t)
    with Cons.prems(1) have 2: "feed (handle_endtag self t) evs = Inr self'" by simp
    from Cons.prems(5) EndTag have "t \<noteq> ''a''" by auto
    note k = handle_endtag_other [OF this, of self]
    have "results self' = results (handle_endtag self t) \<and> in_package_section self'
         \<and> (\<exists>pkg'. current_package self' = Some pkg' \<and> pkg_version pkg' = None
                \<and> pkg_name pkg' = pkg_name pkg)"
      using 2 k Cons.prems(2-6) EndTag by (intro Cons.IH) auto
    with k show ?thesis by simp
  qed
qed

text \<open>
  What the structured extractor does hold to. Let it recognize a package container: an
  \<open>a\<close> start tag whose class holds \<open>package-snippet\<close> or \<open>snippet\<close> and whose href matches
  \<open>/project/<name>/\<close>. When no anchor tag is nested in the container and no text read as
  the content of a \<open>span\<close> inside it, of whatever class, holds a version-shaped substring,
  the result emitted at the container's end tag has the empty string as its version. And
  whatever the events, no result of the structured extractor has the version \<open>unknown\<close>.
\<close>

lemma container_without_span_version:
  assumes "attrs_dict attrs ''class'' = Some (Some cv)"
    and "''package-snippet'' \<in> set (split_ws cv) \<or> ''snippet'' \<in> set (split_ws cv)"
    and "attrs_dict attrs ''href'' = Some (Some h)"
    and "re_search False project_regex h = Some m"
    and "\<forall>ev\<in>set inside. ev \<noteq> EndTag ''a'' \<and> (\<forall>as. ev \<noteq> StartTag ''a'' as)"
    and "\<forall>d\<in>set (span_texts (Some ''a'') inside). re_search False version_regex d = None"
    and "feed parser_init (before @ StartTag ''a'' attrs # inside @ [EndTag ''a'']) = Inr self"
  shows "(\<exists>self0 summ. feed parser_init before = Inr self0
            \<and> results self = results self0 @
                 [\<lparr> sr_name = match_group m 1, sr_version = [], sr_summary = summ, sr_score = None \<rparr>])
         \<and> (\<forall>evs self'. feed parser_init evs = Inr self'
               \<longrightarrow> (\<forall>r\<in>set (results self'). sr_version r \<noteq> ''unknown''))"
proof -
  let ?pkg = "\<lparr> pkg_name = match_group m 1, pkg_href = h, pkg_version = None, pkg_summary = None \<rparr>"
  from assms(7) obtain self0 where b: "feed parser_init before = Inr self0"
    and r: "feed self0 (StartTag ''a'' attrs # inside @ [EndTag ''a'']) = Inr self"
    by (auto simp: feed_append elim!: py_bind_InrE)
  let ?s1 = "self0\<lparr> current_tag := Some ''a'', in_package_section := True,
                     current_package := Some ?pkg \<rparr>"
  from r container_start [OF assms(1-4), of self0]
  have "feed ?s1 (inside @ [EndTag ''a'']) = Inr self" by simp
  then obtain s2 where i: "feed ?s1 inside = Inr s2"
    and e: "handle_endtag s2 ''a'' = self"
    by (auto simp: feed_append elim!: py_bind_InrE)
  have "results s2 = results ?s1 \<and> in_package_section s2
         \<and> (\<exists>pkg'. current_package s2 = Some pkg' \<and> pkg_version pkg' = None
                \<and> pkg_name pkg' = pkg_name ?pkg)"
    using i assms(5,6) by (intro inside_keeps) simp_all
  then obtain pkg' where k: "results s2 = results self0" "in_package_section s2"
    "current_package s2 = Some pkg'" "pkg_version pkg' = None" "pkg_name pkg' = match_group m 1"
    by auto
  have "results self = results self0 @
          [\<lparr> sr_name = match_group m 1, sr_version = [], sr_summary = pkg_summary pkg', sr_score = None \<rparr>]"
    using k by (simp add: e [symmetric] handle_endtag_def)
  with b have "\<exists>self0 summ. feed parser_init before = Inr self0
            \<and> results self = results self0 @
                 [\<lparr> sr_name = match_group m 1, sr_version = [], sr_summary = summ, sr_score = None \<rparr>]"
    by blast
  moreover have "\<forall>evs self'. feed parser_init evs = Inr self'
               \<longrightarrow> (\<forall>r\<in>set (results self'). sr_version r \<noteq> ''unknown'')"
    using structured_never_unknown by blast
  ultimately show ?thesis by blast
qed

text \<open>
  The events of one container without a version; and the fallback extractor producing
  \<open>unknown\<close> for the page with one project link.
\<close>

lemma snippet_events_result:
  "map_sum id results (feed parser_init snippet_events)
     = Inr [\<lparr> sr_name = ''requests'', sr_version = [],
               sr_summary = Some ''Python HTTP for Humans.'', sr_score = None \<rparr>]
   \<and> (\<exists>self. feed parser_init snippet_events = Inr self
          \<and> list_all (\<lambda>r. sr_version r \<noteq> ''unknown'') (results self))
   \<and> fallback_search_parse link_page 1
     = [\<lparr> sr_name = ''foo'', sr_version = ''unknown'', sr_summary = None, sr_score = None \<rparr>]"
proof -
  let ?attrs = "[(''class'', Some ''package-snippet''), (''href'', Some ''/project/requests/'')]"
  let ?inside = "[StartTag ''h3'' [(''class'', Some ''package-snippet__title'')],
      StartTag ''span'' [(''class'', Some ''package-snippet__name'')],
      Data ''requests'',
      EndTag ''span'',
      EndTag ''h3'',
      StartTag ''p'' [(''class'', Some ''package-snippet__description'')],
      Data ''Python HTTP for Humans.'',
      EndTag ''p'']"
  have ev: "snippet_events = [] @ StartTag ''a'' ?attrs # ?inside @ [EndTag ''a'']"
    by (simp add: snippet_events_def)
  have res: "map_sum id results (feed parser_init snippet_events)
     = Inr [\<lparr> sr_name = ''requests'', sr_version = [],
               sr_summary = Some ''Python HTTP for Humans.'', sr_score = None \<rparr>]"
    by code_simp
  then obtain self where self: "feed parser_init snippet_events = Inr self"
    by (cases "feed parser_init snippet_events") auto
  have h1: "attrs_dict ?attrs ''class'' = Some (Some ''package-snippet'')"
    by (simp add: attrs_dict_def)
  have h2: "''package-snippet'' \<in> set (split_ws ''package-snippet'')
            \<or> ''snippet'' \<in> set (split_ws ''package-snippet'')"
    by code_simp
  have h3: "attrs_dict ?attrs ''href'' = Some (Some ''/project/requests/'')"
    by (simp add: attrs_dict_def)
  have "re_search False project_regex ''/project/requests/'' \<noteq> None"
    by code_simp
  then obtain m where h4: "re_search False project_regex ''/project/requests/'' = Some m"
    by blast
  have h5: "\<forall>ev\<in>set ?inside. ev \<noteq> EndTag ''a'' \<and> (\<forall>as. ev \<noteq> StartTag ''a'' as)"
    by simp
  have sp: "span_texts (Some ''a'') ?inside = [''requests'']"
    by code_simp
  have nv: "re_search False version_regex ''requests'' = None"
    by code_simp
  have h6: "\<forall>d\<in>set (span_texts (Some ''a'') ?inside). re_search False version_regex d = None"
    unfolding sp using nv by simp
  have h7: "feed parser_init ([] @ StartTag ''a'' ?attrs # ?inside @ [EndTag ''a'']) = Inr self"
    using self ev by simp
  from container_without_span_version [OF h1 h2 h3 h4 h5 h6 h7]
  have "\<forall>evs self'. feed parser_init evs = Inr self'
               \<longrightarrow> (\<forall>r\<in>set (results self'). sr_version r \<noteq> ''unknown'')"
    by blast
  with self have "list_all (\<lambda>r. sr_version r \<noteq> ''unknown'') (results self)"
    by (auto simp: list_all_iff)
  moreover have "fallback_search_parse link_page 1
     = [\<lparr> sr_name = ''foo'', sr_version = ''unknown'', sr_summary = None, sr_score = None \<rparr>]"
    by code_simp
  ultimately show ?thesis using res self by blast
qed

text \<open>
  C10. The claim is that a container in which the extractor recognizes no version-bearing
  element yields a result whose version is the empty string. \<open>handle_starttag\<close> tests the
  class of a \<open>span\<close> for \<open>package-snippet__version\<close> or \<open>version\<close>, but the test only clears
  \<open>current_data\<close>, which nothing reads; \<open>handle_data\<close> takes the version from the text of
  any \<open>span\<close>. So the container whose only element is the name \<open>demo2.0\<close>, in a \<open>span\<close>
  of class \<open>package-snippet__name\<close>, yields a result of version \<open>2.0\<close>, from the parser and
  from \<open>search_packages\<close>.
\<close>

theorem C10_name_span_sets_version:
  "class_tokens [(''class'', Some ''package-snippet__name'')] = Inr [''package-snippet__name'']
   \<and> map_sum id results (feed parser_init versioned_name_events)
       = Inr [\<lparr> sr_name = ''demo2.0'', sr_version = ''2.0'', sr_summary = None, sr_score = None \<rparr>]
   \<and> search_packages (\<lambda>html. versioned_name_events)
         (init None 10 True (page_registry versioned_name_page)) ''demo'' 20
       = Inr [\<lparr> sr_name = ''demo2.0'', sr_version = ''2.0'', sr_summary = None, sr_score = None \<rparr>]"
  by code_simp

end
